theory Spec2Isabelle
  imports Complex_Main "HOL-Library.Sublist"
begin

section \<open>JavaScript numbers\<close>

text \<open>
  A JavaScript number is an IEEE double. The model keeps the three special values apart
  from the finite ones and computes on the finite ones with exact real arithmetic:
  rounding, overflow to infinity and the sign of zero are not modelled here (the only
  zero is the positive one). The special cases of every operation follow IEEE 754, so
  that a division by zero is visible as \<open>PInf\<close>, \<open>NInf\<close> or \<open>NaN\<close> and never as a finite
  number. Statements made over these operations are about values far from the overflow
  threshold and do not turn on the last bit of a result; the noise band of the sampler
  does, and the section on double precision rounds every operation for it.
\<close>

datatype jsnum = Fin real | PInf | NInf | NaN

fun isFinite :: "jsnum \<Rightarrow> bool" where
  "isFinite (Fin _) = True"
| "isFinite _ = False"

fun jneg :: "jsnum \<Rightarrow> jsnum" where
  "jneg (Fin a) = Fin (- a)"
| "jneg PInf = NInf"
| "jneg NInf = PInf"
| "jneg NaN = NaN"

fun jadd :: "jsnum \<Rightarrow> jsnum \<Rightarrow> jsnum" where
  "jadd NaN _ = NaN"
| "jadd _ NaN = NaN"
| "jadd (Fin a) (Fin b) = Fin (a + b)"
| "jadd PInf NInf = NaN"
| "jadd NInf PInf = NaN"
| "jadd PInf _ = PInf"
| "jadd _ PInf = PInf"
| "jadd NInf _ = NInf"
| "jadd _ NInf = NInf"

definition jsub :: "jsnum \<Rightarrow> jsnum \<Rightarrow> jsnum" where
  "jsub a b = jadd a (jneg b)"

fun jmul :: "jsnum \<Rightarrow> jsnum \<Rightarrow> jsnum" where
  "jmul NaN _ = NaN"
| "jmul _ NaN = NaN"
| "jmul (Fin a) (Fin b) = Fin (a * b)"
| "jmul (Fin a) PInf = (if a = 0 then NaN else if 0 < a then PInf else NInf)"
| "jmul (Fin a) NInf = (if a = 0 then NaN else if 0 < a then NInf else PInf)"
| "jmul PInf (Fin b) = (if b = 0 then NaN else if 0 < b then PInf else NInf)"
| "jmul NInf (Fin b) = (if b = 0 then NaN else if 0 < b then NInf else PInf)"
| "jmul PInf PInf = PInf"
| "jmul NInf NInf = PInf"
| "jmul PInf NInf = NInf"
| "jmul NInf PInf = NInf"

fun jdiv :: "jsnum \<Rightarrow> jsnum \<Rightarrow> jsnum" where
  "jdiv NaN _ = NaN"
| "jdiv _ NaN = NaN"
| "jdiv (Fin a) (Fin b) =
     (if b \<noteq> 0 then Fin (a / b)
      else if a = 0 then NaN
      else if 0 < a then PInf else NInf)"
| "jdiv (Fin a) _ = Fin 0"
| "jdiv PInf (Fin b) = (if 0 \<le> b then PInf else NInf)"
| "jdiv NInf (Fin b) = (if 0 \<le> b then NInf else PInf)"
| "jdiv _ _ = NaN"

text \<open>The comparison \<open>a < b\<close>; every comparison with \<open>NaN\<close> is false.\<close>

fun jless :: "jsnum \<Rightarrow> jsnum \<Rightarrow> bool" where
  "jless NaN _ = False"
| "jless _ NaN = False"
| "jless (Fin a) (Fin b) = (a < b)"
| "jless NInf NInf = False"
| "jless NInf _ = True"
| "jless _ NInf = False"
| "jless PInf _ = False"
| "jless _ PInf = True"

definition jgt :: "jsnum \<Rightarrow> jsnum \<Rightarrow> bool" where
  "jgt a b = jless b a"

definition jle :: "jsnum \<Rightarrow> jsnum \<Rightarrow> bool" where
  "jle a b = (a \<noteq> NaN \<and> b \<noteq> NaN \<and> \<not> jless b a)"

definition jge :: "jsnum \<Rightarrow> jsnum \<Rightarrow> bool" where
  "jge a b = jle b a"

text \<open>\<open>Math.max\<close> of two arguments, \<open>Math.exp\<close>, \<open>Math.sqrt\<close> and \<open>Math.pow(x, 2)\<close>.\<close>

definition Math_max :: "jsnum \<Rightarrow> jsnum \<Rightarrow> jsnum" where
  "Math_max a b = (if a = NaN \<or> b = NaN then NaN else if jless a b then b else a)"

fun Math_exp :: "jsnum \<Rightarrow> jsnum" where
  "Math_exp (Fin a) = Fin (exp a)"
| "Math_exp PInf = PInf"
| "Math_exp NInf = Fin 0"
| "Math_exp NaN = NaN"

fun Math_sqrt :: "jsnum \<Rightarrow> jsnum" where
  "Math_sqrt (Fin a) = (if a < 0 then NaN else Fin (sqrt a))"
| "Math_sqrt PInf = PInf"
| "Math_sqrt NInf = NaN"
| "Math_sqrt NaN = NaN"

fun Math_pow2 :: "jsnum \<Rightarrow> jsnum" where
  "Math_pow2 (Fin a) = Fin (a ^ 2)"
| "Math_pow2 PInf = PInf"
| "Math_pow2 NInf = PInf"
| "Math_pow2 NaN = NaN"

section \<open>Constants, materials and application state\<close>

definition planckConstant :: real where
  "planckConstant = 4.136 / 10 ^ 15"

definition speedOfLight :: real where
  "speedOfLight = 2.998 * 10 ^ 8"

definition elementaryCharge :: real where
  "elementaryCharge = 1.602 / 10 ^ 19"

record material =
  name :: string
  symbol :: string
  workFunction :: real
  color :: string

definition materials :: "material list" where
  "materials =
    [\<lparr>name = ''Cesium'', symbol = ''Cs'', workFunction = 2.10, color = ''#FF6B6B''\<rparr>,
     \<lparr>name = ''Sodium'', symbol = ''Na'', workFunction = 2.28, color = ''#4ECDC4''\<rparr>,
     \<lparr>name = ''Potassium'', symbol = ''K'', workFunction = 2.30, color = ''#45B7D1''\<rparr>,
     \<lparr>name = ''Aluminum'', symbol = ''Al'', workFunction = 4.08, color = ''#96CEB4''\<rparr>,
     \<lparr>name = ''Copper'', symbol = ''Cu'', workFunction = 4.70, color = ''#FFEAA7''\<rparr>,
     \<lparr>name = ''Silver'', symbol = ''Ag'', workFunction = 4.73, color = ''#DDA0DD''\<rparr>,
     \<lparr>name = ''Gold'', symbol = ''Au'', workFunction = 5.10, color = ''#FFD700''\<rparr>]"

text \<open>
  The field \<open>state\<close> of the simulator. The slider values are finite numbers (they come
  from \<open>parseFloat\<close> of a range input), so they are reals here.
\<close>

record app_state =
  currentMaterial :: material
  wavelength :: real
  intensity :: real
  area :: real
  voltage :: real
  isLightOn :: bool
  experimentRunning :: bool
  measurementCount :: nat

section \<open>The physics model\<close>

record physics =
  frequency :: jsnum
  photonEnergy :: jsnum
  workFunction_p :: jsnum
  maxKineticEnergy :: jsnum
  thresholdWavelength :: jsnum
  stoppingPotential :: jsnum
  current :: jsnum
  isEmission :: bool

text \<open>
  \<open>calculatePhysics\<close> reads \<open>this.state\<close> only. The function has no \<open>throw\<close> and no
  validation, so the model has no error branch either.
\<close>

definition calculatePhysics :: "app_state \<Rightarrow> physics" where
  "calculatePhysics st =
    (let frequency = jdiv (Fin speedOfLight) (jmul (Fin (wavelength st)) (Fin (1 / 10 ^ 9)));
         photonEnergy = jmul (Fin planckConstant) frequency;
         workFunction = Fin (workFunction (currentMaterial st));
         maxKineticEnergy = Math_max (Fin 0) (jsub photonEnergy workFunction);
         thresholdWavelength =
           jmul (jdiv (jmul (Fin planckConstant) (Fin speedOfLight))
                      (jmul workFunction (Fin (1.602 / 10 ^ 19))))
                (Fin (10 ^ 9));
         stoppingPotential = maxKineticEnergy;
         isEmission = jgt photonEnergy workFunction;
         current =
           (if isEmission \<and> jge (Fin (voltage st)) (jneg stoppingPotential) then
              (let saturationCurrent = jmul (jmul (Fin (intensity st)) (Fin (area st))) (Fin 0.001)
               in if jge (Fin (voltage st)) (Fin 0) then saturationCurrent
                  else (let factor = jdiv (Fin (voltage st)) stoppingPotential
                        in jmul saturationCurrent (Math_exp factor)))
            else Fin 0)
     in \<lparr>frequency = frequency, photonEnergy = photonEnergy, workFunction_p = workFunction,
         maxKineticEnergy = maxKineticEnergy, thresholdWavelength = thresholdWavelength,
         stoppingPotential = stoppingPotential, current = current, isEmission = isEmission\<rparr>)"

section \<open>The measurement sampler and the experiment data\<close>

record measurementData =
  voltage_d :: real
  mean :: jsnum
  standardDeviation :: jsnum
  standardError :: jsnum
  measurements :: nat
  individualReadings :: "jsnum list"
  timestamp :: int
  material_d :: string
  wavelength_d :: real
  intensity_d :: real
  area_d :: real

text \<open>
  The simulator object: \<open>state\<close>, \<open>experimentData\<close> and the points of the chart
  (\<open>ivChart.data.datasets[0].data\<close>). The page elements, the canvases, the log and the
  particles of the animation are presentation and are left out.
\<close>

record simulator =
  state :: app_state
  experimentData :: "measurementData list"
  ivChartData :: "(real \<times> jsnum) list"

text \<open>The constructor: default state, no data, an empty chart.\<close>

definition initial :: simulator where
  "initial =
    \<lparr>state = \<lparr>currentMaterial = materials ! 0, wavelength = 400, intensity = 5, area = 0.10,
               voltage = 0, isLightOn = False, experimentRunning = False, measurementCount = 0\<rparr>,
     experimentData = [], ivChartData = []\<rparr>"

text \<open>
  One pass of the loop body of \<open>takePrecisionMeasurement\<close>: \<open>u\<close> is the value that
  \<open>Math.random()\<close> returns, \<open>c\<close> is \<open>physics.current\<close>.
\<close>

definition reading :: "jsnum \<Rightarrow> real \<Rightarrow> jsnum" where
  "reading c u =
    (let noise = jmul (jmul (jsub (Fin u) (Fin 0.5)) (Fin 0.0001)) c
     in jadd c noise)"

text \<open>
  The array \<open>measurements\<close> after \<open>n\<close> passes of the loop; \<open>rnd i\<close> is the draw of pass
  \<open>i\<close>, so the source of randomness is an argument.
\<close>

fun takeReadings :: "(nat \<Rightarrow> real) \<Rightarrow> jsnum \<Rightarrow> nat \<Rightarrow> jsnum list" where
  "takeReadings rnd c 0 = []"
| "takeReadings rnd c (Suc i) = takeReadings rnd c i @ [reading c (rnd i)]"

definition measurementCount_c :: nat where
  "measurementCount_c = 1000"

text \<open>
  The mean and the variance over exact reals; the section on double precision has them
  with every partial sum rounded.
\<close>

definition mean_of :: "jsnum list \<Rightarrow> jsnum" where
  "mean_of ms = jdiv (foldl (\<lambda>a b. jadd a b) (Fin 0) ms) (Fin (real measurementCount_c))"

definition variance_of :: "jsnum list \<Rightarrow> jsnum \<Rightarrow> jsnum" where
  "variance_of ms m =
     jdiv (foldl (\<lambda>a b. jadd a (Math_pow2 (jsub b m))) (Fin 0) ms) (Fin (real measurementCount_c))"

definition takePrecisionMeasurement :: "(nat \<Rightarrow> real) \<Rightarrow> int \<Rightarrow> simulator \<Rightarrow> simulator" where
  "takePrecisionMeasurement rnd now s =
    (let phys = calculatePhysics (state s);
         ms = takeReadings rnd (current phys) measurementCount_c;
         m = mean_of ms;
         variance = variance_of ms m;
         sd = Math_sqrt variance;
         se = jdiv sd (Math_sqrt (Fin (real measurementCount_c)));
         measurementData =
           \<lparr>voltage_d = voltage (state s), mean = m, standardDeviation = sd, standardError = se,
            measurements = measurementCount_c, individualReadings = ms, timestamp = now,
            material_d = name (currentMaterial (state s)), wavelength_d = wavelength (state s),
            intensity_d = intensity (state s), area_d = area (state s)\<rparr>
     in s\<lparr>experimentData := experimentData s @ [measurementData],
          state := (state s)\<lparr>measurementCount := Suc (measurementCount (state s))\<rparr>,
          ivChartData := ivChartData s @ [(voltage (state s), m)]\<rparr>)"

text \<open>\<open>updateDataTable\<close> shows \<open>experimentData.slice(-10)\<close> and assigns nothing.\<close>

definition recentData :: "simulator \<Rightarrow> measurementData list" where
  "recentData s = drop (length (experimentData s) - 10) (experimentData s)"

definition clearGraph :: "simulator \<Rightarrow> simulator" where
  "clearGraph s = s\<lparr>ivChartData := []\<rparr>"

definition resetExperiment :: "simulator \<Rightarrow> simulator" where
  "resetExperiment s =
    (let s1 = s\<lparr>state := (state s)\<lparr>isLightOn := False, measurementCount := 0\<rparr>,
                 experimentData := []\<rparr>;
         s2 = clearGraph s1
     in s2\<lparr>state := (state s2)\<lparr>wavelength := 400, intensity := 5, area := 0.10, voltage := 0,
                                 currentMaterial := materials ! 0\<rparr>\<rparr>)"

definition toggleLight :: "(nat \<Rightarrow> real) \<Rightarrow> int \<Rightarrow> simulator \<Rightarrow> simulator" where
  "toggleLight rnd now s =
    (let s1 = s\<lparr>state := (state s)\<lparr>isLightOn := \<not> isLightOn (state s)\<rparr>\<rparr>
     in if isLightOn (state s1) then takePrecisionMeasurement rnd now s1 else s1)"

section \<open>The exporter\<close>

text \<open>
  Two conversions of the host are arguments of the exporter: the default conversion of a
  number to a string (used by \<open>join\<close> and by \<open>toFixed\<close> outside its own range) and
  \<open>new Date(t).toISOString()\<close>.
\<close>

record host =
  numToString :: "jsnum \<Rightarrow> string"
  toISOString :: "int \<Rightarrow> string"

definition digit_char :: "nat \<Rightarrow> char" where
  "digit_char d = ''0123456789'' ! (d mod 10)"

function digits :: "nat \<Rightarrow> string" where
  "digits n = (if n < 10 then [digit_char n] else digits (n div 10) @ [digit_char (n mod 10)])"
  by pat_completeness auto
termination
  by (relation "measure (\<lambda>n. n)") auto

text \<open>
  \<open>Number.prototype.toFixed\<close> with \<open>f\<close> fraction digits (\<open>f \<le> 100\<close>): the integer \<open>n\<close>
  nearest to \<open>x * 10 ^ f\<close>, the larger one on a tie, written with at least \<open>f + 1\<close> digits
  and a point before the last \<open>f\<close>.
\<close>

definition toFixed :: "host \<Rightarrow> nat \<Rightarrow> jsnum \<Rightarrow> string" where
  "toFixed h f x =
    (case x of
       Fin r \<Rightarrow>
         (let s = (if r < 0 then ''-'' else []);
              a = (if r < 0 then - r else r)
          in if 10 ^ 21 \<le> a then s @ numToString h (Fin a)
             else (let n = nat \<lfloor>a * 10 ^ f + 1 / 2\<rfloor>;
                       m = digits n;
                       m1 = replicate (f + 1 - length m) (CHR ''0'') @ m;
                       k = length m1
                   in if f \<noteq> 0 then s @ take (k - f) m1 @ ''.'' @ drop (k - f) m1
                      else s @ m))
     | _ \<Rightarrow> numToString h x)"

fun join :: "string \<Rightarrow> string list \<Rightarrow> string" where
  "join sep [] = []"
| "join sep [x] = x"
| "join sep (x # y # ys) = x @ sep @ join sep (y # ys)"

definition headers :: "string list" where
  "headers =
    [''Timestamp'', ''Material'', ''Work_Function_eV'', ''Wavelength_nm'', ''Photon_Energy_eV'',
     ''Intensity_W_per_m2'', ''Area_cm2'', ''Applied_Voltage_V'', ''Mean_Current_uA'',
     ''Standard_Deviation_uA'', ''Standard_Error_uA'', ''Measurements_Count'',
     ''Individual_Readings'']"

text \<open>
  The array \<open>row\<close> that the body of \<open>forEach\<close> builds for one record, each element already
  converted to the string that \<open>join\<close> makes of it.
\<close>

definition quote :: string where
  "quote = [CHR 0x22]"

definition csvRow :: "host \<Rightarrow> simulator \<Rightarrow> measurementData \<Rightarrow> string list" where
  "csvRow h s d =
    (let photonEnergy =
           jdiv (jmul (Fin planckConstant) (Fin speedOfLight))
                (jmul (Fin (wavelength_d d)) (Fin (1 / 10 ^ 9)))
     in [toISOString h (timestamp d),
         material_d d,
         toFixed h 6 (Fin (workFunction (currentMaterial (state s)))),
         numToString h (Fin (wavelength_d d)),
         toFixed h 6 photonEnergy,
         numToString h (Fin (intensity_d d)),
         numToString h (Fin (area_d d)),
         toFixed h 6 (Fin (voltage_d d)),
         toFixed h 6 (mean d),
         toFixed h 6 (standardDeviation d),
         toFixed h 6 (standardError d),
         numToString h (Fin (real (measurements d))),
         quote @ join '';'' (map (toFixed h 6) (individualReadings d)) @ quote])"

definition newline :: string where
  "newline = [CHR 0x0A]"

definition csvContent :: "host \<Rightarrow> simulator \<Rightarrow> string" where
  "csvContent h s =
     foldl (\<lambda>csv d. csv @ join '','' (csvRow h s d) @ newline)
           (join '','' headers @ newline) (experimentData s)"

text \<open>
  What the user gets from \<open>exportAllData\<close>: the alert, or the download of a file with a
  name and a content. The function assigns no field of the simulator; the second
  component of the result is the simulator after the call.
\<close>

datatype export_outcome = Alert string | Download string string

definition exportAllData :: "host \<Rightarrow> int \<Rightarrow> simulator \<Rightarrow> export_outcome \<times> simulator" where
  "exportAllData h now s =
    (if length (experimentData s) = 0 then
       (Alert ''No experimental data to export. Please switch on the light and take measurements first.'', s)
     else
       (Download (''photoelectric_data_'' @ numToString h (Fin (real_of_int now)) @ ''.csv'')
                 (csvContent h s), s))"

section \<open>The listeners and the operations on the experiment data\<close>

text \<open>
  The listener of the material selector: \<open>materials[parseInt(e.target.value)]\<close> is
  \<open>undefined\<close> outside the table, and the recalculation that follows then fails with a
  \<open>TypeError\<close>.
\<close>

datatype js_error = TypeError

definition materialChange :: "nat \<Rightarrow> simulator \<Rightarrow> js_error + simulator" where
  "materialChange i s =
    (if i < length materials then Inr (s\<lparr>state := (state s)\<lparr>currentMaterial := materials ! i\<rparr>\<rparr>)
     else Inl TypeError)"

text \<open>
  The listeners of the wavelength, intensity and area sliders store the new value; the
  listener of the voltage slider also takes a measurement when the light is on.
\<close>

definition wavelengthInput :: "real \<Rightarrow> simulator \<Rightarrow> simulator" where
  "wavelengthInput v s = s\<lparr>state := (state s)\<lparr>wavelength := v\<rparr>\<rparr>"

definition intensityInput :: "real \<Rightarrow> simulator \<Rightarrow> simulator" where
  "intensityInput v s = s\<lparr>state := (state s)\<lparr>intensity := v\<rparr>\<rparr>"

definition areaInput :: "real \<Rightarrow> simulator \<Rightarrow> simulator" where
  "areaInput v s = s\<lparr>state := (state s)\<lparr>area := v\<rparr>\<rparr>"

definition voltageInput :: "(nat \<Rightarrow> real) \<Rightarrow> int \<Rightarrow> real \<Rightarrow> simulator \<Rightarrow> simulator" where
  "voltageInput rnd now v s =
    (let s1 = s\<lparr>state := (state s)\<lparr>voltage := v\<rparr>\<rparr>
     in if isLightOn (state s1) then takePrecisionMeasurement rnd now s1 else s1)"

text \<open>
  Everything that reads or writes \<open>experimentData\<close>, \<open>state.measurementCount\<close> or the
  points of the chart, as one operation type. An operation gives what its caller sees and
  the simulator after it; the two queries are the reads that the page makes of the data
  (the last ten records of the table, the points of the chart).
\<close>

datatype ledger_op =
    MaterialChange nat
  | WavelengthInput real
  | IntensityInput real
  | AreaInput real
  | VoltageInput real
  | SwitchLight
  | Measure
  | Reset
  | ClearGraph
  | Export
  | Snapshot
  | IvCurve

datatype op_result =
    Done
  | Records "measurementData list"
  | Points "(real \<times> jsnum) list"
  | Exported export_outcome

fun run_op ::
  "host \<Rightarrow> (nat \<Rightarrow> real) \<Rightarrow> int \<Rightarrow> ledger_op \<Rightarrow> simulator \<Rightarrow> js_error + (op_result \<times> simulator)"
where
  "run_op h rnd now (MaterialChange i) s =
     (case materialChange i s of Inl e \<Rightarrow> Inl e | Inr s1 \<Rightarrow> Inr (Done, s1))"
| "run_op h rnd now (WavelengthInput v) s = Inr (Done, wavelengthInput v s)"
| "run_op h rnd now (IntensityInput v) s = Inr (Done, intensityInput v s)"
| "run_op h rnd now (AreaInput v) s = Inr (Done, areaInput v s)"
| "run_op h rnd now (VoltageInput v) s = Inr (Done, voltageInput rnd now v s)"
| "run_op h rnd now SwitchLight s = Inr (Done, toggleLight rnd now s)"
| "run_op h rnd now Measure s = Inr (Done, takePrecisionMeasurement rnd now s)"
| "run_op h rnd now Reset s = Inr (Done, resetExperiment s)"
| "run_op h rnd now ClearGraph s = Inr (Done, clearGraph s)"
| "run_op h rnd now Export s =
     (case exportAllData h now s of (out, s1) \<Rightarrow> Inr (Exported out, s1))"
| "run_op h rnd now Snapshot s = Inr (Records (recentData s), s)"
| "run_op h rnd now IvCurve s = Inr (Points (ivChartData s), s)"

text \<open>The invariant of the experiment data: as many records as the counter says.\<close>

definition ledger_inv :: "simulator \<Rightarrow> bool" where
  "ledger_inv s = (length (experimentData s) = measurementCount (state s))"

text \<open>The text that an export hands to the user, if any.\<close>

fun payload :: "export_outcome \<Rightarrow> string option" where
  "payload (Alert msg) = None"
| "payload (Download file content) = Some content"

text \<open>A material with work function zero in place of the selected one.\<close>

definition zero_work_function :: app_state where
  "zero_work_function =
     (state initial)\<lparr>currentMaterial := (currentMaterial (state initial))\<lparr>workFunction := 0\<rparr>\<rparr>"

section \<open>Parameter ranges\<close>

text \<open>The ranges of the four sliders of the page.\<close>

definition in_range :: "app_state \<Rightarrow> bool" where
  "in_range st =
    (100 \<le> wavelength st \<and> wavelength st \<le> 700 \<and> 1 \<le> intensity st \<and> intensity st \<le> 10 \<and>
     0.01 \<le> area st \<and> area st \<le> 1 \<and> - 5 \<le> voltage st \<and> voltage st \<le> 5)"

text \<open>The photon energy in eV at the wavelength \<open>w\<close> in nm, as a real number.\<close>

abbreviation hf :: "real \<Rightarrow> real" where
  "hf w \<equiv> planckConstant * (speedOfLight / (w * (1 / 10 ^ 9)))"

section \<open>Auxiliary notions of the statements\<close>

text \<open>The record that a measurement has just appended.\<close>

definition newRecord :: "(nat \<Rightarrow> real) \<Rightarrow> int \<Rightarrow> simulator \<Rightarrow> measurementData" where
  "newRecord rnd now s = last (experimentData (takePrecisionMeasurement rnd now s))"


text \<open>A source of randomness whose every draw is zero.\<close>

definition zero_draws :: "nat \<Rightarrow> real" where
  "zero_draws i = 0"

text \<open>A host whose two conversions give the empty string, to run the exporter on.\<close>

definition blank_host :: host where
  "blank_host = \<lparr>numToString = (\<lambda>x. []), toISOString = (\<lambda>t. [])\<rparr>"

section \<open>The sampler in double precision\<close>

text \<open>
  Whether a reading stays inside a band around the nominal current is decided by the
  rounding of each operation. This section gives lines 361 to 371 of
  \<open>takePrecisionMeasurement\<close> once more, with every literal and every result rounded to
  the nearest double.

  \<open>rhe\<close> rounds a real to the nearest integer, a tie to the even one.
\<close>

definition rhe :: "real \<Rightarrow> int" where
  "rhe y =
    (let n = \<lfloor>y\<rfloor>; d = y - of_int n
     in if d < 1 / 2 then n else if 1 / 2 < d then n + 1 else if even n then n else n + 1)"

text \<open>
  The double nearest to a real, ties to even: 53 significant bits, and below
  \<open>2 ^ -1022\<close> the fixed spacing \<open>2 ^ -1074\<close> of the subnormal numbers.
\<close>

definition fl :: "real \<Rightarrow> real" where
  "fl x =
    (if x = 0 then 0
     else (let e = max (\<lfloor>log 2 \<bar>x\<bar>\<rfloor> - 52) (- 1074)
           in of_int (rhe (x / 2 powi e)) * 2 powi e))"

text \<open>
  A result of an operation as the double that is stored: a magnitude that rounds to
  \<open>2 ^ 1024\<close> overflows to infinity.
\<close>

fun rounded :: "jsnum \<Rightarrow> jsnum" where
  "rounded (Fin x) =
     (let r = fl x
      in if 2 ^ 1024 \<le> r then PInf else if r \<le> - (2 ^ 1024) then NInf else Fin r)"
| "rounded v = v"

declare rounded.simps [simp del]

text \<open>The loop body and the loop (lines 361 to 365).\<close>

definition reading_d :: "jsnum \<Rightarrow> real \<Rightarrow> jsnum" where
  "reading_d c u =
    (let noise =
           rounded (jmul (rounded (jmul (rounded (jsub (Fin u) (Fin 0.5))) (rounded (Fin 0.0001)))) c)
     in rounded (jadd c noise))"

fun takeReadings_d :: "(nat \<Rightarrow> real) \<Rightarrow> jsnum \<Rightarrow> nat \<Rightarrow> jsnum list" where
  "takeReadings_d rnd c 0 = []"
| "takeReadings_d rnd c (Suc i) = takeReadings_d rnd c i @ [reading_d c (rnd i)]"

text \<open>
  The statistics (lines 368 to 371): \<open>reduce\<close> rounds every partial sum. \<open>Math.pow\<close> and
  \<open>Math.sqrt\<close> are taken as correctly rounded.
\<close>

definition mean_of_d :: "jsnum list \<Rightarrow> jsnum" where
  "mean_of_d ms =
     rounded (jdiv (foldl (\<lambda>a b. rounded (jadd a b)) (Fin 0) ms) (Fin (real measurementCount_c)))"

definition variance_of_d :: "jsnum list \<Rightarrow> jsnum \<Rightarrow> jsnum" where
  "variance_of_d ms m =
     rounded (jdiv (foldl (\<lambda>a b. rounded (jadd a (rounded (Math_pow2 (rounded (jsub b m))))))
                     (Fin 0) ms)
                (Fin (real measurementCount_c)))"

definition standardDeviation_d :: "jsnum list \<Rightarrow> jsnum" where
  "standardDeviation_d ms = rounded (Math_sqrt (variance_of_d ms (mean_of_d ms)))"

definition standardError_d :: "jsnum list \<Rightarrow> jsnum" where
  "standardError_d ms =
     rounded (jdiv (standardDeviation_d ms) (rounded (Math_sqrt (Fin (real measurementCount_c)))))"

section \<open>The physics model on finite inputs\<close>

text \<open>
  With a wavelength other than zero every intermediate value of \<open>calculatePhysics\<close> is
  finite, and the result is given by the formulas of real arithmetic.
\<close>
lemma photonEnergy_fin:
  "wavelength st \<noteq> 0 \<Longrightarrow> photonEnergy (calculatePhysics st) = Fin (hf (wavelength st))"
  by (simp add: calculatePhysics_def Let_def)

lemma isEmission_fin:
  "wavelength st \<noteq> 0 \<Longrightarrow>
   isEmission (calculatePhysics st) = (workFunction (currentMaterial st) < hf (wavelength st))"
  by (simp add: calculatePhysics_def Let_def jgt_def)

lemma stoppingPotential_fin:
  "wavelength st \<noteq> 0 \<Longrightarrow>
   stoppingPotential (calculatePhysics st) =
     Fin (max 0 (hf (wavelength st) - workFunction (currentMaterial st)))"
  by (simp add: calculatePhysics_def Let_def Math_max_def jsub_def max_def)

lemma current_fin:
  assumes "wavelength st \<noteq> 0"
  shows "current (calculatePhysics st) =
     (if workFunction (currentMaterial st) < hf (wavelength st) \<and>
         - (hf (wavelength st) - workFunction (currentMaterial st)) \<le> voltage st
      then (if 0 \<le> voltage st then Fin (intensity st * area st * 0.001)
            else Fin (intensity st * area st * 0.001 *
                      exp (voltage st / (hf (wavelength st) - workFunction (currentMaterial st)))))
      else Fin 0)"
  using assms
  by (simp add: calculatePhysics_def Let_def Math_max_def jsub_def jgt_def jge_def jle_def max_def)


lemma sat_nonneg: "in_range st \<Longrightarrow> 0 \<le> intensity st * area st * 0.001"
  by (simp add: in_range_def)

text \<open>
  C5: for a fixed material, wavelength, intensity and area within the ranges of the
  sliders, the current is non-decreasing in the applied voltage over the interval from
  minus the stopping potential to zero.
\<close>
theorem current_nondecreasing_in_voltage:
  assumes rng: "in_range st" and wf: "0 < workFunction (currentMaterial st)"
    and vs: "stoppingPotential (calculatePhysics st) = Fin vs"
    and v1: "- vs \<le> v1" and v12: "v1 \<le> v2" and v2: "v2 \<le> 0"
  shows "jle (current (calculatePhysics (st\<lparr>voltage := v1\<rparr>)))
             (current (calculatePhysics (st\<lparr>voltage := v2\<rparr>)))"
proof -
  let ?w = "wavelength st" and ?phi = "workFunction (currentMaterial st)"
  let ?sat = "intensity st * area st * 0.001"
  have w: "?w \<noteq> 0" using rng by (simp add: in_range_def)
  have sat: "0 \<le> ?sat" using rng by (rule sat_nonneg)
  have vs_eq: "vs = max 0 (hf ?w - ?phi)"
    using vs stoppingPotential_fin [OF w] by simp
  show ?thesis
  proof (cases "?phi < hf ?w")
    case False
    then show ?thesis using w by (simp add: current_fin jle_def)
  next
    case True
    then have pos: "0 < vs" and vs': "hf ?w - ?phi = vs" using vs_eq by simp_all
    have c1: "current (calculatePhysics (st\<lparr>voltage := v1\<rparr>)) =
        (if 0 \<le> v1 then Fin ?sat else Fin (?sat * exp (v1 / vs)))"
      using w True v1 vs' by (simp add: current_fin)
    have c2: "current (calculatePhysics (st\<lparr>voltage := v2\<rparr>)) =
        (if 0 \<le> v2 then Fin ?sat else Fin (?sat * exp (v2 / vs)))"
      using w True v1 v12 vs' by (simp add: current_fin)
    have e12: "exp (v1 / vs) \<le> exp (v2 / vs)"
      using v12 pos by (simp add: divide_right_mono)
    have e1: "v1 < 0 \<Longrightarrow> exp (v1 / vs) \<le> 1"
      using pos by (simp add: divide_le_0_iff)
    have m12: "?sat * exp (v1 / vs) \<le> ?sat * exp (v2 / vs)"
      using e12 sat by (rule mult_left_mono)
    have m1: "v1 < 0 \<Longrightarrow> ?sat * exp (v1 / vs) \<le> ?sat"
      using mult_left_mono [OF e1 sat] by simp
    show ?thesis
      unfolding c1 c2 using m12 m1 v12 v2 by (auto simp: jle_def not_less)
  qed
qed

text \<open>The default state, with the voltages \<open>-0.5\<close> and \<open>-0.25\<close>.\<close>
theorem current_nondecreasing_in_voltage_witness:
  "in_range (state initial) \<and> 0 < workFunction (currentMaterial (state initial)) \<and>
   stoppingPotential (calculatePhysics (state initial)) = Fin 0.999932 \<and>
   - 0.999932 \<le> (- 0.5 :: real) \<and> (- 0.5 :: real) \<le> - 0.25 \<and> (- 0.25 :: real) \<le> 0 \<and>
   jle (current (calculatePhysics ((state initial)\<lparr>voltage := - 0.5\<rparr>)))
       (current (calculatePhysics ((state initial)\<lparr>voltage := - 0.25\<rparr>)))"
proof -
  have h1: "in_range (state initial)"
    by (simp add: in_range_def initial_def)
  have h2: "0 < workFunction (currentMaterial (state initial))"
    by (simp add: initial_def materials_def)
  have h3: "stoppingPotential (calculatePhysics (state initial)) = Fin 0.999932"
    by (simp add: stoppingPotential_fin initial_def materials_def planckConstant_def
        speedOfLight_def)
  have h4: "- 0.999932 \<le> (- 0.5 :: real)" and h5: "(- 0.5 :: real) \<le> - 0.25"
    and h6: "(- 0.25 :: real) \<le> 0" by simp_all
  show ?thesis
    using h1 h2 h3 current_nondecreasing_in_voltage [OF h1 h2 h3 h4 h5 h6] by simp
qed

text \<open>
  C6: for parameters within the ranges of the sliders and a positive work function the
  current is a finite number; the retarding branch divides by the stopping potential only
  when emission occurs, and then the stopping potential is positive and the quotient is
  finite.
\<close>
theorem current_never_nan_or_infinite:
  assumes rng: "in_range st" and wf: "0 < workFunction (currentMaterial st)"
  shows "isFinite (current (calculatePhysics st)) \<and>
         (isEmission (calculatePhysics st) \<longrightarrow>
            (\<exists>vs. stoppingPotential (calculatePhysics st) = Fin vs \<and> 0 < vs \<and>
                  jdiv (Fin (voltage st)) (stoppingPotential (calculatePhysics st)) =
                    Fin (voltage st / vs)))"
proof -
  have w: "wavelength st \<noteq> 0" using rng by (simp add: in_range_def)
  have fin: "isFinite (current (calculatePhysics st))"
    using w by (simp add: current_fin)
  have "\<exists>vs. stoppingPotential (calculatePhysics st) = Fin vs \<and> 0 < vs \<and>
            jdiv (Fin (voltage st)) (stoppingPotential (calculatePhysics st)) = Fin (voltage st / vs)"
    if "isEmission (calculatePhysics st)"
  proof -
    from that w have "workFunction (currentMaterial st) < hf (wavelength st)"
      by (simp add: isEmission_fin)
    then show ?thesis using w by (simp add: stoppingPotential_fin)
  qed
  with fin show ?thesis by blast
qed

text \<open>The default state at \<open>-0.5\<close> volt, which is in the retarding branch.\<close>
theorem current_never_nan_or_infinite_witness:
  "in_range ((state initial)\<lparr>voltage := - 0.5\<rparr>) \<and>
   0 < workFunction (currentMaterial ((state initial)\<lparr>voltage := - 0.5\<rparr>)) \<and>
   isEmission (calculatePhysics ((state initial)\<lparr>voltage := - 0.5\<rparr>)) \<and>
   isFinite (current (calculatePhysics ((state initial)\<lparr>voltage := - 0.5\<rparr>))) \<and>
   stoppingPotential (calculatePhysics ((state initial)\<lparr>voltage := - 0.5\<rparr>)) = Fin 0.999932"
proof -
  have h1: "in_range ((state initial)\<lparr>voltage := - 0.5\<rparr>)"
    by (simp add: in_range_def initial_def)
  have h2: "0 < workFunction (currentMaterial ((state initial)\<lparr>voltage := - 0.5\<rparr>))"
    by (simp add: initial_def materials_def)
  have h3: "isEmission (calculatePhysics ((state initial)\<lparr>voltage := - 0.5\<rparr>))"
    by (simp add: isEmission_fin initial_def materials_def planckConstant_def speedOfLight_def)
  have h4: "stoppingPotential (calculatePhysics ((state initial)\<lparr>voltage := - 0.5\<rparr>)) = Fin 0.999932"
    by (simp add: stoppingPotential_fin initial_def materials_def planckConstant_def
        speedOfLight_def)
  show ?thesis
    using h1 h2 h3 h4 current_never_nan_or_infinite [OF h1 h2] by simp
qed

section \<open>The readings of a measurement\<close>



lemma reading_fin: "reading (Fin c) u = Fin (c + (u - 0.5) * 0.0001 * c)"
  by (simp add: reading_def jsub_def)

lemma takeReadings_fin:
  "takeReadings rnd (Fin c) n = map (\<lambda>i. Fin (c + (rnd i - 0.5) * 0.0001 * c)) [0..<n]"
  by (induction n) (simp_all add: reading_fin)






section \<open>The experiment data as a ledger\<close>

lemma takePrecisionMeasurement_data:
  "\<exists>d. experimentData (takePrecisionMeasurement rnd now s) = experimentData s @ [d]"
  by (simp add: takePrecisionMeasurement_def Let_def)

lemma takePrecisionMeasurement_count:
  "measurementCount (state (takePrecisionMeasurement rnd now s)) = Suc (measurementCount (state s))"
  by (simp add: takePrecisionMeasurement_def Let_def)

lemma takePrecisionMeasurement_inv:
  "ledger_inv s \<Longrightarrow> ledger_inv (takePrecisionMeasurement rnd now s)"
  by (simp add: ledger_inv_def takePrecisionMeasurement_def Let_def)

lemma takePrecisionMeasurement_prefix:
  "prefix (experimentData s) (experimentData (takePrecisionMeasurement rnd now s))"
  by (simp add: takePrecisionMeasurement_def Let_def)

lemma toggleLight_inv: "ledger_inv s \<Longrightarrow> ledger_inv (toggleLight rnd now s)"
proof -
  assume inv: "ledger_inv s"
  have on: "ledger_inv (s\<lparr>state := (state s)\<lparr>isLightOn := b\<rparr>\<rparr>)" for b
    using inv by (simp add: ledger_inv_def)
  show ?thesis
    by (cases "isLightOn (state s)")
       (simp_all add: toggleLight_def Let_def takePrecisionMeasurement_inv on)
qed

lemma toggleLight_prefix: "prefix (experimentData s) (experimentData (toggleLight rnd now s))"
proof -
  have pre: "prefix (experimentData s)
      (experimentData (takePrecisionMeasurement rnd now (s\<lparr>state := (state s)\<lparr>isLightOn := b\<rparr>\<rparr>)))"
    for b
    using takePrecisionMeasurement_prefix [of "s\<lparr>state := (state s)\<lparr>isLightOn := b\<rparr>\<rparr>" rnd now]
    by simp
  show ?thesis
    by (cases "isLightOn (state s)") (simp_all add: toggleLight_def Let_def pre)
qed

lemma voltageInput_inv: "ledger_inv s \<Longrightarrow> ledger_inv (voltageInput rnd now v s)"
proof -
  assume inv: "ledger_inv s"
  let ?s1 = "s\<lparr>state := (state s)\<lparr>voltage := v\<rparr>\<rparr>"
  have "ledger_inv ?s1" using inv by (simp add: ledger_inv_def)
  then show ?thesis
    by (simp add: voltageInput_def Let_def takePrecisionMeasurement_inv)
qed

lemma voltageInput_prefix: "prefix (experimentData s) (experimentData (voltageInput rnd now v s))"
proof -
  let ?s1 = "s\<lparr>state := (state s)\<lparr>voltage := v\<rparr>\<rparr>"
  have "prefix (experimentData ?s1) (experimentData (takePrecisionMeasurement rnd now ?s1))"
    by (rule takePrecisionMeasurement_prefix)
  then show ?thesis by (simp add: voltageInput_def Let_def)
qed

lemma resetExperiment_inv: "ledger_inv (resetExperiment s)"
  by (simp add: ledger_inv_def resetExperiment_def clearGraph_def Let_def)

text \<open>
  C8: every operation keeps the number of records equal to the counter, and every
  operation other than the reset keeps the records it found, in their order, as a prefix
  of the records it leaves.
\<close>
theorem ledger_invariant_preserved:
  assumes inv: "ledger_inv s" and run: "run_op h rnd now op s = Inr (r, s')"
  shows "ledger_inv s' \<and> (op \<noteq> Reset \<longrightarrow> prefix (experimentData s) (experimentData s'))"
proof (cases op)
  case (MaterialChange i)
  with inv run show ?thesis
    by (auto simp: materialChange_def ledger_inv_def split: if_splits)
next
  case (WavelengthInput v)
  with inv run show ?thesis by (auto simp: wavelengthInput_def ledger_inv_def)
next
  case (IntensityInput v)
  with inv run show ?thesis by (auto simp: intensityInput_def ledger_inv_def)
next
  case (AreaInput v)
  with inv run show ?thesis by (auto simp: areaInput_def ledger_inv_def)
next
  case (VoltageInput v)
  with inv run show ?thesis by (auto simp: voltageInput_inv voltageInput_prefix)
next
  case SwitchLight
  with inv run show ?thesis by (auto simp: toggleLight_inv toggleLight_prefix)
next
  case Measure
  with inv run show ?thesis
    by (auto simp: takePrecisionMeasurement_inv takePrecisionMeasurement_prefix)
next
  case Reset
  with run show ?thesis by (auto simp: resetExperiment_inv)
next
  case ClearGraph
  with inv run show ?thesis by (auto simp: clearGraph_def ledger_inv_def)
next
  case Export
  with inv run show ?thesis by (auto simp: exportAllData_def split: if_splits)
next
  case Snapshot
  with inv run show ?thesis by auto
next
  case IvCurve
  with inv run show ?thesis by auto
qed

text \<open>A measurement taken in the state of the constructor.\<close>
theorem ledger_invariant_preserved_witness:
  "ledger_inv initial \<and>
   run_op blank_host zero_draws 0 Measure initial =
     Inr (Done, takePrecisionMeasurement zero_draws 0 initial) \<and>
   ledger_inv (takePrecisionMeasurement zero_draws 0 initial) \<and>
   Measure \<noteq> Reset \<and>
   prefix (experimentData initial) (experimentData (takePrecisionMeasurement zero_draws 0 initial))"
proof -
  have h1: "ledger_inv initial" by (simp add: ledger_inv_def initial_def)
  have h2: "run_op blank_host zero_draws 0 Measure initial =
      Inr (Done, takePrecisionMeasurement zero_draws 0 initial)" by simp
  show ?thesis
    using h1 h2 ledger_invariant_preserved [OF h1 h2] by simp
qed

text \<open>
  C9: after a reset the table of recent records and the curve of the chart are empty
  and the counter is zero, from any state; a second reset changes nothing.
\<close>
theorem reset_clears_and_is_idempotent:
  "length (recentData (resetExperiment s)) = 0 \<and>
   length (ivChartData (resetExperiment s)) = 0 \<and>
   measurementCount (state (resetExperiment s)) = 0 \<and>
   resetExperiment (resetExperiment s) = resetExperiment s"
  by (simp add: resetExperiment_def clearGraph_def recentData_def Let_def)

text \<open>
  C7: an export with no record gives the alert and no text, and leaves the simulator as
  it was.
\<close>
theorem export_of_empty_data:
  assumes "length (experimentData s) = 0"
  shows "fst (exportAllData h now s) =
           Alert ''No experimental data to export. Please switch on the light and take measurements first.'' \<and>
         payload (fst (exportAllData h now s)) = None \<and>
         snd (exportAllData h now s) = s"
  using assms by (simp add: exportAllData_def)

text \<open>The state of the constructor has no record.\<close>
theorem export_of_empty_data_witness:
  "length (experimentData initial) = 0 \<and>
   payload (fst (exportAllData blank_host 0 initial)) = None \<and>
   snd (exportAllData blank_host 0 initial) = initial"
proof -
  have h1: "length (experimentData initial) = 0" by (simp add: initial_def)
  show ?thesis using h1 export_of_empty_data [OF h1, of blank_host 0] by simp
qed

section \<open>The threshold wavelength\<close>

lemma thresholdWavelength_value:
  "thresholdWavelength (calculatePhysics st) =
     (if workFunction (currentMaterial st) = 0 then PInf
      else Fin (planckConstant * speedOfLight /
                (workFunction (currentMaterial st) * (1.602 / 10 ^ 19)) * 10 ^ 9))"
  by (simp add: calculatePhysics_def Let_def planckConstant_def speedOfLight_def)

text \<open>
  C2, evaluated: at 400 nm with Cesium the photon energy is \<open>3.099932\<close> eV, the maximum
  kinetic energy \<open>0.999932\<close> eV and emission occurs, but the threshold wavelength that the
  code computes is above \<open>3 * 10 ^ 21\<close> nm, not near 590.9 nm: the Planck constant is in
  eV s and the quotient is divided by the elementary charge once more.
\<close>
theorem physics_at_400nm_cesium:
  "wavelength (state initial) = 400 \<and>
   name (currentMaterial (state initial)) = ''Cesium'' \<and>
   workFunction (currentMaterial (state initial)) = 2.10 \<and>
   photonEnergy (calculatePhysics (state initial)) = Fin 3.099932 \<and>
   maxKineticEnergy (calculatePhysics (state initial)) = Fin 0.999932 \<and>
   isEmission (calculatePhysics (state initial)) \<and>
   thresholdWavelength (calculatePhysics (state initial)) =
     Fin (61998640000000000000000000 / 16821) \<and>
   (3 * 10 ^ 21 :: real) < 61998640000000000000000000 / 16821"
  by (simp add: calculatePhysics_def initial_def materials_def planckConstant_def
      speedOfLight_def Let_def jsub_def Math_max_def jgt_def)

text \<open>
  With a work function of zero the function returns a result, and the threshold
  wavelength in it is infinite.
\<close>
theorem zero_work_function_counterexample:
  "workFunction (currentMaterial zero_work_function) = 0 \<and>
   thresholdWavelength (calculatePhysics zero_work_function) = PInf \<and>
   photonEnergy (calculatePhysics zero_work_function) = Fin 3.099932"
  by (simp add: calculatePhysics_def zero_work_function_def initial_def materials_def
      planckConstant_def speedOfLight_def Let_def)

text \<open>
  C4, as the code has it: a work function of zero is not rejected (the code validates
  nothing); the formula is evaluated and the threshold wavelength of the result is
  infinite. The table never leads there: each of its seven work functions is positive
  and gives a finite threshold wavelength, below \<open>4 * 10 ^ 21\<close>.
\<close>
theorem zero_work_function_gives_infinity:
  "(workFunction (currentMaterial st) = 0 \<longrightarrow>
      thresholdWavelength (calculatePhysics st) = PInf) \<and>
   list_all
     (\<lambda>m. 0 < workFunction m \<and>
          isFinite (thresholdWavelength (calculatePhysics (st\<lparr>currentMaterial := m\<rparr>))) \<and>
          jless (thresholdWavelength (calculatePhysics (st\<lparr>currentMaterial := m\<rparr>)))
                (Fin (4 * 10 ^ 21)))
     materials"
  by (simp add: thresholdWavelength_value materials_def planckConstant_def speedOfLight_def)

text \<open>The state with the work function set to zero.\<close>
theorem zero_work_function_gives_infinity_witness:
  "workFunction (currentMaterial zero_work_function) = 0 \<and>
   thresholdWavelength (calculatePhysics zero_work_function) = PInf \<and>
   list_all
     (\<lambda>m. 0 < workFunction m \<and>
          isFinite
            (thresholdWavelength (calculatePhysics (zero_work_function\<lparr>currentMaterial := m\<rparr>))) \<and>
          jless (thresholdWavelength (calculatePhysics (zero_work_function\<lparr>currentMaterial := m\<rparr>)))
                (Fin (4 * 10 ^ 21)))
     materials"
proof -
  have h: "workFunction (currentMaterial zero_work_function) = 0"
    by (simp add: zero_work_function_def)
  show ?thesis
    using h zero_work_function_gives_infinity [of zero_work_function] by simp
qed

section \<open>The work function column of the export\<close>

lemma toFixed6_gold: "toFixed h 6 (Fin 5.10) = ''5.100000''"
proof -
  have m: "digits 5100000 = ''5100000''" by (simp add: digit_char_def)
  show ?thesis by (simp add: toFixed_def Let_def m del: digits.simps)
qed
lemma toFixed6_cesium: "toFixed h 6 (Fin 2.10) = ''2.100000''"
proof -
  have m: "digits 2100000 = ''2100000''" by (simp add: digit_char_def)
  show ?thesis by (simp add: toFixed_def Let_def m del: digits.simps)
qed

lemma takePrecisionMeasurement_appends:
  "experimentData (takePrecisionMeasurement rnd now s) = experimentData s @ [newRecord rnd now s]"
  by (simp add: newRecord_def takePrecisionMeasurement_def Let_def)

lemma initial_no_data: "experimentData initial = []"
  by (simp add: initial_def)

lemma measured_initial:
  "experimentData (takePrecisionMeasurement rnd now initial) = [newRecord rnd now initial]"
  unfolding takePrecisionMeasurement_appends initial_no_data by simp

lemma newRecord_material: "material_d (newRecord rnd now s) = name (currentMaterial (state s))"
  by (simp add: newRecord_def takePrecisionMeasurement_def Let_def)

text \<open>
  C3, evaluated: a measurement is taken with Cesium, then Gold is selected. The row of
  the export names Cesium and reports \<open>5.100000\<close>, the work function of Gold, where the
  work function of Cesium is \<open>2.100000\<close>: the row reads the material selected at the time
  of the export.
\<close>
theorem export_reports_selected_material:
  "\<exists>s. materialChange 6 (takePrecisionMeasurement zero_draws 0 initial) = Inr s \<and>
       experimentData s = [newRecord zero_draws 0 initial] \<and>
       material_d (newRecord zero_draws 0 initial) = ''Cesium'' \<and>
       toFixed h 6 (Fin (workFunction (materials ! 0))) = ''2.100000'' \<and>
       name (materials ! 0) = ''Cesium'' \<and>
       name (currentMaterial (state s)) = ''Gold'' \<and>
       csvRow h s (newRecord zero_draws 0 initial) ! 1 = ''Cesium'' \<and>
       csvRow h s (newRecord zero_draws 0 initial) ! 2 = ''5.100000'' \<and>
       fst (exportAllData h now s) =
         Download (''photoelectric_data_'' @ numToString h (Fin (real_of_int now)) @ ''.csv'')
           (join '','' headers @ newline @
            join '','' (csvRow h s (newRecord zero_draws 0 initial)) @ newline)"
proof -
  define s where
    "s = (takePrecisionMeasurement zero_draws 0 initial)
           \<lparr>state := (state (takePrecisionMeasurement zero_draws 0 initial))
              \<lparr>currentMaterial := materials ! 6\<rparr>\<rparr>"
  have a: "materialChange 6 (takePrecisionMeasurement zero_draws 0 initial) = Inr s"
    by (simp add: materialChange_def s_def materials_def)
  have b: "experimentData s = [newRecord zero_draws 0 initial]"
    by (simp add: s_def measured_initial)
  have c: "material_d (newRecord zero_draws 0 initial) = ''Cesium''"
    by (simp add: newRecord_material initial_def materials_def)
  have "workFunction (materials ! 0) = 2.10" by (simp add: materials_def)
  then have d: "toFixed h 6 (Fin (workFunction (materials ! 0))) = ''2.100000''"
    by (simp only: toFixed6_cesium)
  have e: "name (materials ! 0) = ''Cesium''" by (simp add: materials_def)
  have g: "currentMaterial (state s) = materials ! 6" by (simp add: s_def)
  have f: "name (currentMaterial (state s)) = ''Gold''"
    unfolding g by (simp add: materials_def)
  have wf: "workFunction (currentMaterial (state s)) = 5.10"
    unfolding g by (simp add: materials_def)
  have r1: "csvRow h s (newRecord zero_draws 0 initial) ! 1 = ''Cesium''"
    by (simp add: csvRow_def Let_def c)
  have "csvRow h s (newRecord zero_draws 0 initial) ! 2 = toFixed h 6 (Fin 5.10)"
    by (simp add: csvRow_def Let_def wf)
  then have r2: "csvRow h s (newRecord zero_draws 0 initial) ! 2 = ''5.100000''"
    by (simp only: toFixed6_gold)
  have x: "fst (exportAllData h now s) =
         Download (''photoelectric_data_'' @ numToString h (Fin (real_of_int now)) @ ''.csv'')
           (join '','' headers @ newline @
            join '','' (csvRow h s (newRecord zero_draws 0 initial)) @ newline)"
    by (simp add: exportAllData_def csvContent_def b)
  from a b c d e f r1 r2 x show ?thesis by blast
qed

section \<open>Rounding to the nearest double\<close>

lemma rhe_error: "\<bar>of_int (rhe y) - y\<bar> \<le> 1 / 2"
proof -
  have "of_int \<lfloor>y\<rfloor> \<le> y" "y < of_int \<lfloor>y\<rfloor> + 1" by linarith+
  then show ?thesis by (auto simp: rhe_def Let_def)
qed

lemma fl_zero: "fl 0 = 0"
  by (simp add: fl_def)

lemma fl_error_exp:
  assumes "x \<noteq> 0"
  shows "\<bar>fl x - x\<bar> \<le> 2 powi (max (\<lfloor>log 2 \<bar>x\<bar>\<rfloor> - 52) (- 1074)) / 2"
proof -
  define e where "e = max (\<lfloor>log 2 \<bar>x\<bar>\<rfloor> - 52) (- 1074)"
  have p: "(0::real) < 2 powi e" by simp
  have "fl x - x = (of_int (rhe (x / 2 powi e)) - x / 2 powi e) * 2 powi e"
    using assms p by (simp add: fl_def e_def [symmetric] Let_def field_simps)
  then have "\<bar>fl x - x\<bar> = \<bar>of_int (rhe (x / 2 powi e)) - x / 2 powi e\<bar> * 2 powi e"
    using p by (simp add: abs_mult)
  also have "\<dots> \<le> 1 / 2 * 2 powi e"
    using rhe_error [of "x / 2 powi e"] p by (intro mult_right_mono) simp_all
  finally show ?thesis by (simp add: e_def)
qed

lemma powi_floor_log_le:
  fixes x :: real
  assumes "0 < x"
  shows "2 powi \<lfloor>log 2 x\<rfloor> \<le> x"
proof -
  have "2 powr (of_int \<lfloor>log 2 x\<rfloor>) \<le> 2 powr (log 2 x)"
    by (intro powr_mono) simp_all
  also have "\<dots> = x" using assms by simp
  finally show ?thesis by (simp add: powr_real_of_int')
qed

lemma fl_error: "\<bar>fl x - x\<bar> \<le> \<bar>x\<bar> / 2 ^ 53 + 1 / 2 ^ 1075"
proof (cases "x = 0")
  case True
  then show ?thesis by (simp add: fl_zero)
next
  case False
  define L where "L = \<lfloor>log 2 \<bar>x\<bar>\<rfloor>"
  have le: "2 powi L \<le> \<bar>x\<bar>" unfolding L_def using False by (intro powi_floor_log_le) simp
  have b: "\<bar>fl x - x\<bar> \<le> 2 powi (max (L - 52) (- 1074)) / 2"
    using fl_error_exp [OF False] by (simp add: L_def)
  show ?thesis
  proof (cases "L - 52 \<le> - 1074")
    case True
    then have "max (L - 52) (- 1074) = - 1074" by simp
    with b have "\<bar>fl x - x\<bar> \<le> 2 powi (- 1074) / 2" by simp
    also have "\<dots> = 1 / 2 ^ 1075" by (simp add: power_int_minus_divide)
    finally show ?thesis by (smt (verit) divide_nonneg_nonneg abs_ge_zero zero_le_power)
  next
    case False
    then have "max (L - 52) (- 1074) = L - 52" by simp
    with b have "\<bar>fl x - x\<bar> \<le> 2 powi (L - 52) / 2" by simp
    also have "\<dots> = 2 powi L / 2 ^ 53"
      by (simp add: power_int_diff)
    also have "\<dots> \<le> \<bar>x\<bar> / 2 ^ 53" using le by (simp add: divide_right_mono)
    finally show ?thesis by simp
  qed
qed

lemma powi2_less_imp:
  assumes "(2::real) powi a < 2 powi b"
  shows "a < b"
proof (rule ccontr)
  assume "\<not> a < b"
  then have "b \<le> a" by simp
  then have "(2::real) powi b \<le> 2 powi a" by (intro power_int_increasing) simp_all
  with assms show False by simp
qed

lemma fl_eval:
  assumes x: "x \<noteq> 0" and e: "- 1074 \<le> e"
    and lo: "e = - 1074 \<or> 2 powi (e + 52) \<le> \<bar>x\<bar>" and hi: "\<bar>x\<bar> < 2 powi (e + 53)"
  shows "fl x = of_int (rhe (x / 2 powi e)) * 2 powi e"
proof -
  define L where "L = \<lfloor>log 2 \<bar>x\<bar>\<rfloor>"
  have px: "0 < \<bar>x\<bar>" using x by simp
  have "2 powi L \<le> \<bar>x\<bar>" unfolding L_def using px by (rule powi_floor_log_le)
  with hi have "(2::real) powi L < 2 powi (e + 53)" by simp
  then have up: "L < e + 53" by (rule powi2_less_imp)
  have "max (L - 52) (- 1074) = e"
  proof (cases "2 powi (e + 52) \<le> \<bar>x\<bar>")
    case True
    have "\<bar>x\<bar> < 2 powi (L + 1)"
    proof -
      have "log 2 \<bar>x\<bar> < of_int (L + 1)" unfolding L_def by linarith
      then have "2 powr (log 2 \<bar>x\<bar>) < 2 powr (of_int (L + 1))"
        by (intro powr_less_mono) simp_all
      moreover have "2 powr (log 2 \<bar>x\<bar>) = \<bar>x\<bar>" using px by simp
      moreover have "(2::real) powr (of_int (L + 1)) = 2 powi (L + 1)"
        by (rule powr_real_of_int') simp_all
      ultimately show ?thesis by simp
    qed
    with True have "(2::real) powi (e + 52) < 2 powi (L + 1)" by simp
    then have "e + 52 < L + 1" by (rule powi2_less_imp)
    with up e show ?thesis by simp
  next
    case False
    with lo have "e = - 1074" by simp
    with up show ?thesis by simp
  qed
  then show ?thesis using x by (simp add: fl_def L_def Let_def)
qed

text \<open>
  The doubles of one reading: the literals \<open>0.0001\<close>, \<open>0.07\<close> and \<open>0.001\<close>, the saturation
  current at intensity 1 and area 0.07, and the four results of the loop body at the
  draw 0.
\<close>
lemma fl_k: "fl (1 / 10000) = 7378697629483821 / 73786976294838206464"
proof -
  have "fl (1 / 10000) = of_int (rhe ((1 / 10000) / 2 powi (-66))) * 2 powi (-66)"
    by (rule fl_eval) simp_all
  also have "rhe ((1 / 10000) / 2 powi (-66)) = 7378697629483821"
    by (simp add: rhe_def Let_def)
  finally show ?thesis by simp
qed

lemma fl_area: "fl (7 / 100) = 1261007895663739 / 18014398509481984"
proof -
  have "fl (7 / 100) = of_int (rhe ((7 / 100) / 2 powi (-56))) * 2 powi (-56)"
    by (rule fl_eval) simp_all
  also have "rhe ((7 / 100) / 2 powi (-56)) = 5044031582654956"
    by (simp add: rhe_def Let_def)
  finally show ?thesis by simp
qed

lemma fl_ia: "fl (1261007895663739 / 18014398509481984) = 1261007895663739 / 18014398509481984"
proof -
  have "fl (1261007895663739 / 18014398509481984) = of_int (rhe ((1261007895663739 / 18014398509481984) / 2 powi (-56))) * 2 powi (-56)"
    by (rule fl_eval) simp_all
  also have "rhe ((1261007895663739 / 18014398509481984) / 2 powi (-56)) = 5044031582654956"
    by (simp add: rhe_def Let_def)
  finally show ?thesis by simp
qed

lemma fl_milli: "fl (1 / 1000) = 1152921504606847 / 1152921504606846976"
proof -
  have "fl (1 / 1000) = of_int (rhe ((1 / 1000) / 2 powi (-62))) * 2 powi (-62)"
    by (rule fl_eval) simp_all
  also have "rhe ((1 / 1000) / 2 powi (-62)) = 4611686018427388"
    by (simp add: rhe_def Let_def)
  finally show ?thesis by simp
qed

lemma fl_c0: "fl (1453843120389751904603309020933 / 20769187434139310514121985316880384) = 5165088340638675 / 73786976294838206464"
proof -
  have "fl (1453843120389751904603309020933 / 20769187434139310514121985316880384) = of_int (rhe ((1453843120389751904603309020933 / 20769187434139310514121985316880384) / 2 powi (-66))) * 2 powi (-66)"
    by (rule fl_eval) simp_all
  also have "rhe ((1453843120389751904603309020933 / 20769187434139310514121985316880384) / 2 powi (-66)) = 5165088340638675"
    by (simp add: rhe_def Let_def)
  finally show ?thesis by simp
qed

lemma fl_t1: "fl (- (1 / 2)) = - (1 / 2)"
proof -
  have "fl (- (1 / 2)) = of_int (rhe ((- (1 / 2)) / 2 powi (-53))) * 2 powi (-53)"
    by (rule fl_eval) simp_all
  also have "rhe ((- (1 / 2)) / 2 powi (-53)) = - 4503599627370496"
    by (simp add: rhe_def Let_def)
  finally show ?thesis by simp
qed

lemma fl_t2: "fl (- (7378697629483821 / 147573952589676412928)) = - (7378697629483821 / 147573952589676412928)"
proof -
  have "fl (- (7378697629483821 / 147573952589676412928)) = of_int (rhe ((- (7378697629483821 / 147573952589676412928)) / 2 powi (-67))) * 2 powi (-67)"
    by (rule fl_eval) simp_all
  also have "rhe ((- (7378697629483821 / 147573952589676412928)) / 2 powi (-67)) = - 7378697629483821"
    by (simp add: rhe_def Let_def)
  finally show ?thesis by simp
qed

lemma fl_t3: "fl (- (38111625095145113774257719377175 / 10889035741470030830827987437816582766592)) = - (4231240368651203 / 1208925819614629174706176)"
proof -
  have "fl (- (38111625095145113774257719377175 / 10889035741470030830827987437816582766592)) = of_int (rhe ((- (38111625095145113774257719377175 / 10889035741470030830827987437816582766592)) / 2 powi (-81))) * 2 powi (-81)"
    by (rule fl_eval) simp_all
  also have "rhe ((- (38111625095145113774257719377175 / 10889035741470030830827987437816582766592)) / 2 powi (-81)) = - 8462480737302406"
    by (simp add: rhe_def Let_def)
  finally show ?thesis by simp
qed

lemma fl_s: "fl (84620576132655399997 / 1208925819614629174706176) = 5164830086221643 / 73786976294838206464"
proof -
  have "fl (84620576132655399997 / 1208925819614629174706176) = of_int (rhe ((84620576132655399997 / 1208925819614629174706176) / 2 powi (-66))) * 2 powi (-66)"
    by (rule fl_eval) simp_all
  also have "rhe ((84620576132655399997 / 1208925819614629174706176) / 2 powi (-66)) = 5164830086221643"
    by (simp add: rhe_def Let_def)
  finally show ?thesis by simp
qed

lemma rounded_Fin:
  assumes "fl x = r" and "- (2 ^ 1024) < r" and "r < 2 ^ 1024"
  shows "rounded (Fin x) = Fin r"
  using assms by (simp add: rounded.simps Let_def)

lemma length_takeReadings_d: "length (takeReadings_d rnd c n) = n"
  by (induction n) simp_all

lemma takeReadings_d_nth: "i < n \<Longrightarrow> takeReadings_d rnd c n ! i = reading_d c (rnd i)"
proof (induction n)
  case 0
  then show ?case by simp
next
  case (Suc n)
  show ?case
  proof (cases "i = n")
    case True
    then show ?thesis by (simp add: nth_append length_takeReadings_d)
  next
    case False
    with Suc.prems have "i < n" by simp
    then show ?thesis using Suc.IH by (simp add: nth_append length_takeReadings_d)
  qed
qed

text \<open>
  With the intensity slider at 1 and the area slider at 0.07 (400 nm, Cesium, 0 V) the
  current is the saturation current, the double \<open>5165088340638675 / 2 ^ 66\<close>. At the draw
  0 the reading is \<open>5164830086221643 / 2 ^ 66\<close>, and its distance from the nominal current
  exceeds \<open>0.00005\<close> times the nominal current.
\<close>
theorem reading_band_counterexample:
  "rounded (jmul (rounded (jmul (Fin 1) (rounded (Fin 0.07)))) (rounded (Fin 0.001))) =
     Fin (5165088340638675 / 2 ^ 66) \<and>
   takeReadings_d zero_draws (Fin (5165088340638675 / 2 ^ 66)) 1000 ! 0 =
     Fin (5164830086221643 / 2 ^ 66) \<and>
   \<not> \<bar>5164830086221643 / 2 ^ 66 - 5165088340638675 / 2 ^ 66\<bar>
       \<le> 0.00005 * \<bar>5165088340638675 / 2 ^ 66 :: real\<bar>"
proof -
  have a: "rounded (Fin 0.07) = Fin (1261007895663739 / 18014398509481984)"
    by (rule rounded_Fin) (simp_all add: fl_area)
  have ia: "rounded (jmul (Fin 1) (Fin (1261007895663739 / 18014398509481984))) =
      Fin (1261007895663739 / 18014398509481984)"
    unfolding jmul.simps by (rule rounded_Fin) (simp_all add: fl_ia)
  have th: "rounded (Fin 0.001) = Fin (1152921504606847 / 1152921504606846976)"
    by (rule rounded_Fin) (simp_all add: fl_milli)
  have c0: "rounded (jmul (Fin (1261007895663739 / 18014398509481984))
        (Fin (1152921504606847 / 1152921504606846976))) = Fin (5165088340638675 / 73786976294838206464)"
    unfolding jmul.simps by (rule rounded_Fin) (simp_all add: fl_c0)
  have k: "rounded (Fin 0.0001) = Fin (7378697629483821 / 73786976294838206464)"
    by (rule rounded_Fin) (simp_all add: fl_k)
  have t1: "rounded (jsub (Fin 0) (Fin 0.5)) = Fin (- (1 / 2))"
    unfolding jsub_def jneg.simps jadd.simps by (rule rounded_Fin) (simp_all add: fl_t1)
  have t2: "rounded (jmul (Fin (- (1 / 2))) (Fin (7378697629483821 / 73786976294838206464))) =
      Fin (- (7378697629483821 / 147573952589676412928))"
    unfolding jmul.simps by (rule rounded_Fin) (simp_all add: fl_t2)
  have t3: "rounded (jmul (Fin (- (7378697629483821 / 147573952589676412928)))
        (Fin (5165088340638675 / 73786976294838206464))) =
      Fin (- (4231240368651203 / 1208925819614629174706176))"
    unfolding jmul.simps by (rule rounded_Fin) (simp_all add: fl_t3)
  have s: "rounded (jadd (Fin (5165088340638675 / 73786976294838206464))
        (Fin (- (4231240368651203 / 1208925819614629174706176)))) =
      Fin (5164830086221643 / 73786976294838206464)"
    unfolding jadd.simps by (rule rounded_Fin) (simp_all add: fl_s)
  have sat: "rounded (jmul (rounded (jmul (Fin 1) (rounded (Fin 0.07)))) (rounded (Fin 0.001))) =
      Fin (5165088340638675 / 73786976294838206464)"
    unfolding a ia th c0 ..
  have rd: "reading_d (Fin (5165088340638675 / 73786976294838206464)) 0 =
      Fin (5164830086221643 / 73786976294838206464)"
    unfolding reading_d_def Let_def t1 k t2 t3 s ..
  have nth: "takeReadings_d zero_draws (Fin (5165088340638675 / 73786976294838206464)) 1000 ! 0 =
      Fin (5164830086221643 / 73786976294838206464)"
    using rd by (simp add: takeReadings_d_nth zero_draws_def)
  have p: "(2::real) ^ 66 = 73786976294838206464" by simp
  show ?thesis unfolding p using sat nth by simp
qed

section \<open>The noise band in double precision\<close>

lemma fl_abs_le: "\<bar>fl x\<bar> \<le> \<bar>x\<bar> + \<bar>x\<bar> / 2 ^ 53 + 1 / 2 ^ 1075"
  using fl_error [of x] by linarith

lemma rounded_small:
  assumes "\<bar>x\<bar> \<le> 2 ^ 1020"
  shows "rounded (Fin x) = Fin (fl x)"
proof -
  have "\<bar>x\<bar> / 2 ^ 53 \<le> \<bar>x\<bar>" by (simp add: field_simps)
  with fl_abs_le [of x] assms have "\<bar>fl x\<bar> \<le> 2 ^ 1020 + 2 ^ 1020 + 1 / 2 ^ 1075" by linarith
  also have "\<dots> < 2 ^ 1024" by simp
  finally have "\<bar>fl x\<bar> < 2 ^ 1024" .
  then have "\<not> 2 ^ 1024 \<le> fl x" "\<not> fl x \<le> - (2 ^ 1024)" by linarith+
  then show ?thesis by (simp add: rounded.simps Let_def)
qed

lemma fl_near:
  assumes "1 / 2 ^ 1000 \<le> a"
  shows "\<bar>fl x - x\<bar> \<le> \<bar>x\<bar> / 2 ^ 53 + a / 2 ^ 75"
proof -
  have "(1::real) / 2 ^ 1075 = (1 / 2 ^ 1000) / 2 ^ 75" by simp
  also have "\<dots> \<le> a / 2 ^ 75" using assms by (rule divide_right_mono) simp
  finally show ?thesis using fl_error [of x] by linarith
qed

lemma rounded_k: "rounded (Fin 0.0001) = Fin (7378697629483821 / 2 ^ 66)"
  by (rule rounded_Fin) (simp_all add: fl_k)

lemma abs_mult_bound:
  fixes x y b :: real
  assumes "\<bar>x\<bar> \<le> b"
  shows "\<bar>x * y\<bar> \<le> b * \<bar>y\<bar>"
  unfolding abs_mult using assms by (rule mult_right_mono) simp

lemma reading_d_bound:
  assumes u: "0 \<le> u" "u < 1" and lo: "1 / 2 ^ 1000 \<le> \<bar>c\<bar>" and hi: "\<bar>c\<bar> \<le> 2 ^ 1000"
  shows "\<exists>r. reading_d (Fin c) u = Fin r \<and> \<bar>r - c\<bar> \<le> (0.00005 + 1 / 2 ^ 51) * \<bar>c\<bar>"
proof -
  define a where "a = \<bar>c\<bar>"
  define K :: real where "K = 7378697629483821 / 2 ^ 66"
  define t1 where "t1 = fl (u - 1 / 2)"
  define t2 where "t2 = fl (t1 * K)"
  define t3 where "t3 = fl (t2 * c)"
  define r where "r = fl (c + t3)"
  have a: "1 / 2 ^ 1000 \<le> a" "a \<le> 2 ^ 1000" "0 \<le> a" using lo hi by (simp_all add: a_def)
  have big: "(2::real) ^ 1000 \<le> 2 ^ 1020" by simp
  have K: "0 \<le> K" "K \<le> 1" by (simp_all add: K_def)
  \<comment> \<open>the difference \<open>u - 0.5\<close>\<close>
  have u1: "\<bar>u - 1 / 2\<bar> \<le> 1 / 2" using u by linarith
  have T1: "rounded (jsub (Fin u) (Fin 0.5)) = Fin t1"
  proof -
    have "(1::real) / 2 \<le> 2 ^ 1020" by simp
    with u1 have "\<bar>u - 1 / 2\<bar> \<le> 2 ^ 1020" by linarith
    from rounded_small [OF this] show ?thesis by (simp add: jsub_def t1_def)
  qed
  have b1: "\<bar>t1\<bar> \<le> 1 / 2 + 1 / 2 ^ 53"
  proof -
    have "\<bar>t1\<bar> \<le> \<bar>u - 1 / 2\<bar> + \<bar>u - 1 / 2\<bar> / 2 ^ 53 + 1 / 2 ^ 1075"
      unfolding t1_def by (rule fl_abs_le)
    moreover have "\<bar>u - 1 / 2\<bar> / 2 ^ 53 \<le> (1 / 2) / 2 ^ 53"
      using u1 by (rule divide_right_mono) simp
    moreover have "(1 / 2) / 2 ^ 53 + 1 / 2 ^ 1075 \<le> (1::real) / 2 ^ 53" by simp
    ultimately show ?thesis using u1 by linarith
  qed
  \<comment> \<open>times \<open>0.0001\<close>\<close>
  have p1: "\<bar>t1 * K\<bar> \<le> (1 / 2 + 1 / 2 ^ 53) * K"
    using abs_mult_bound [OF b1, of K] K(1) by (simp only: abs_of_nonneg)
  have T2: "rounded (jmul (Fin t1) (Fin K)) = Fin t2"
  proof -
    have "(1 / 2 + 1 / 2 ^ 53) * K \<le> (2::real) ^ 1020" by (simp add: K_def)
    with p1 have "\<bar>t1 * K\<bar> \<le> 2 ^ 1020" by linarith
    from rounded_small [OF this] show ?thesis by (simp add: t2_def)
  qed
  have b2: "\<bar>t2\<bar> \<le> 0.00005 + 1 / 2 ^ 65"
  proof -
    have "\<bar>t2\<bar> \<le> \<bar>t1 * K\<bar> + \<bar>t1 * K\<bar> / 2 ^ 53 + 1 / 2 ^ 1075"
      unfolding t2_def by (rule fl_abs_le)
    moreover have "\<bar>t1 * K\<bar> / 2 ^ 53 \<le> ((1 / 2 + 1 / 2 ^ 53) * K) / 2 ^ 53"
      using p1 by (rule divide_right_mono) simp
    moreover have "(1 / 2 + 1 / 2 ^ 53) * K + ((1 / 2 + 1 / 2 ^ 53) * K) / 2 ^ 53 + 1 / 2 ^ 1075
        \<le> 0.00005 + 1 / 2 ^ 65"
      by (simp add: K_def)
    ultimately show ?thesis using p1 by linarith
  qed
  \<comment> \<open>times the nominal current\<close>
  have p2: "\<bar>t2 * c\<bar> \<le> (0.00005 + 1 / 2 ^ 65) * a"
    using abs_mult_bound [OF b2, of c] by (simp only: a_def)
  have p2': "\<bar>t2 * c\<bar> \<le> a"
  proof -
    have "(0.00005 + 1 / 2 ^ 65) * a \<le> 1 * a" using a by (intro mult_right_mono) simp_all
    with p2 show ?thesis by simp
  qed
  have T3: "rounded (jmul (Fin t2) (Fin c)) = Fin t3"
  proof -
    have "\<bar>t2 * c\<bar> \<le> 2 ^ 1020" using p2' a big by linarith
    from rounded_small [OF this] show ?thesis by (simp add: t3_def)
  qed
  have b3: "\<bar>t3\<bar> \<le> \<bar>t2 * c\<bar> + \<bar>t2 * c\<bar> / 2 ^ 53 + a / 2 ^ 75"
    using fl_near [OF a(1), of "t2 * c"] unfolding t3_def by linarith
  have q2: "\<bar>t2 * c\<bar> / 2 ^ 53 \<le> ((0.00005 + 1 / 2 ^ 65) * a) / 2 ^ 53"
    using p2 by (rule divide_right_mono) simp
  have b3': "\<bar>t3\<bar> \<le> (0.00005 + 1 / 2 ^ 64) * a"
  proof -
    have "(0.00005 + 1 / 2 ^ 65) * a + ((0.00005 + 1 / 2 ^ 65) * a) / 2 ^ 53 + a / 2 ^ 75
        \<le> (0.00005 + 1 / 2 ^ 64) * a"
      using a(3) by (simp add: field_simps)
    with b3 p2 q2 show ?thesis by linarith
  qed
  \<comment> \<open>plus the nominal current\<close>
  have s1: "\<bar>c + t3\<bar> \<le> 2 * a"
  proof -
    have "(0.00005 + 1 / 2 ^ 64) * a \<le> 1 * a" using a by (intro mult_right_mono) simp_all
    with b3' have "\<bar>t3\<bar> \<le> a" by simp
    then show ?thesis unfolding a_def by linarith
  qed
  have R: "rounded (jadd (Fin c) (Fin t3)) = Fin r"
  proof -
    have "2 * (2::real) ^ 1000 \<le> 2 ^ 1020" by simp
    then have "\<bar>c + t3\<bar> \<le> 2 ^ 1020" using s1 a by linarith
    from rounded_small [OF this] show ?thesis by (simp add: r_def)
  qed
  have "\<bar>r - (c + t3)\<bar> \<le> \<bar>c + t3\<bar> / 2 ^ 53 + a / 2 ^ 75"
    unfolding r_def by (rule fl_near [OF a(1)])
  moreover have "\<bar>c + t3\<bar> / 2 ^ 53 \<le> (2 * a) / 2 ^ 53"
    using s1 by (rule divide_right_mono) simp
  moreover have "(0.00005 + 1 / 2 ^ 64) * a + (2 * a) / 2 ^ 53 + a / 2 ^ 75
      \<le> (0.00005 + 1 / 2 ^ 51) * a"
    using a(3) by (simp add: field_simps)
  ultimately have "\<bar>r - c\<bar> \<le> (0.00005 + 1 / 2 ^ 51) * a"
    using b3' by linarith
  moreover have "reading_d (Fin c) u = Fin r"
    unfolding reading_d_def Let_def T1 rounded_k K_def [symmetric] T2 T3 R ..
  ultimately show ?thesis by (auto simp: a_def)
qed

lemma takeReadings_d_fin:
  assumes rnd: "\<forall>i<n. 0 \<le> rnd i \<and> rnd i < 1"
    and lo: "1 / 2 ^ 1000 \<le> \<bar>c\<bar>" and hi: "\<bar>c\<bar> \<le> 2 ^ 1000"
  shows "\<exists>xs. takeReadings_d rnd (Fin c) n = map Fin xs \<and> length xs = n \<and>
              (\<forall>x\<in>set xs. \<bar>x - c\<bar> \<le> (0.00005 + 1 / 2 ^ 51) * \<bar>c\<bar>)"
  using rnd
proof (induction n)
  case 0
  then show ?case by simp
next
  case (Suc n)
  then obtain xs where xs: "takeReadings_d rnd (Fin c) n = map Fin xs" "length xs = n"
      "\<forall>x\<in>set xs. \<bar>x - c\<bar> \<le> (0.00005 + 1 / 2 ^ 51) * \<bar>c\<bar>"
    by auto
  from Suc.prems have "0 \<le> rnd n" "rnd n < 1" by simp_all
  from reading_d_bound [OF this lo hi]
  obtain r where r: "reading_d (Fin c) (rnd n) = Fin r"
      "\<bar>r - c\<bar> \<le> (0.00005 + 1 / 2 ^ 51) * \<bar>c\<bar>" by blast
  have "takeReadings_d rnd (Fin c) (Suc n) = map Fin (xs @ [r])"
    by (simp add: xs r)
  moreover have "length (xs @ [r]) = Suc n" by (simp add: xs)
  moreover have "\<forall>x\<in>set (xs @ [r]). \<bar>x - c\<bar> \<le> (0.00005 + 1 / 2 ^ 51) * \<bar>c\<bar>"
    using xs(3) r(2) by auto
  ultimately show ?case by blast
qed

lemma sum_d_bound:
  assumes lo: "1 / 2 ^ 1000 \<le> \<bar>c\<bar>" and hi: "\<bar>c\<bar> \<le> 2 ^ 1000"
    and len: "length xs \<le> 1000"
    and bnd: "\<forall>x\<in>set xs. \<bar>x - c\<bar> \<le> (0.00005 + 1 / 2 ^ 51) * \<bar>c\<bar>"
  shows "\<exists>s. foldl (\<lambda>a b. rounded (jadd a b)) (Fin 0) (map Fin xs) = Fin s \<and>
             \<bar>s - real (length xs) * c\<bar> \<le> (0.00005 + 1 / 2 ^ 41) * (real (length xs) * \<bar>c\<bar>)"
  using len bnd
proof (induction xs rule: rev_induct)
  case Nil
  then show ?case by simp
next
  case (snoc x xs)
  define a where "a = \<bar>c\<bar>"
  define na where "na = real (length xs) * a"
  have a: "1 / 2 ^ 1000 \<le> a" "a \<le> 2 ^ 1000" "0 \<le> a" using lo hi by (simp_all add: a_def)
  from snoc.prems have len: "length xs \<le> 999" by simp
  have na: "0 \<le> na" "na \<le> 999 * a"
  proof -
    show "0 \<le> na" unfolding na_def using a(3) by simp
    have "real (length xs) \<le> 999" using len by simp
    then show "na \<le> 999 * a" unfolding na_def using a(3) by (rule mult_right_mono)
  qed
  from snoc.prems snoc.IH obtain s where
    s: "foldl (\<lambda>a b. rounded (jadd a b)) (Fin 0) (map Fin xs) = Fin s"
       "\<bar>s - real (length xs) * c\<bar> \<le> (0.00005 + 1 / 2 ^ 41) * na"
    by (auto simp: na_def a_def)
  from snoc.prems have x: "\<bar>x - c\<bar> \<le> (0.00005 + 1 / 2 ^ 51) * a" by (simp add: a_def)
  have nc: "\<bar>real (length xs) * c\<bar> = na" by (simp add: na_def a_def abs_mult)
  have sx: "\<bar>s + x\<bar> \<le> (1 + (0.00005 + 1 / 2 ^ 41)) * (na + a)"
  proof -
    have "\<bar>s + x\<bar> \<le> \<bar>s - real (length xs) * c\<bar> + \<bar>real (length xs) * c\<bar> + \<bar>x - c\<bar> + \<bar>c\<bar>"
      by linarith
    also have "\<dots> \<le> (0.00005 + 1 / 2 ^ 41) * na + na + (0.00005 + 1 / 2 ^ 51) * a + a"
      using s(2) x nc by (simp add: a_def)
    also have "\<dots> \<le> (1 + (0.00005 + 1 / 2 ^ 41)) * (na + a)"
      using a(3) by (simp add: field_simps)
    finally show ?thesis .
  qed
  have sx2: "\<bar>s + x\<bar> \<le> 2000 * a"
  proof -
    have "(1 + (0.00005 + 1 / 2 ^ 41)) * (na + a) \<le> 2000 * a"
      using na a(3) by (simp add: field_simps)
    with sx show ?thesis by linarith
  qed
  define s' where "s' = fl (s + x)"
  have S: "rounded (Fin (s + x)) = Fin s'"
  proof -
    have "2000 * (2::real) ^ 1000 \<le> 2 ^ 1020" by simp
    then have "\<bar>s + x\<bar> \<le> 2 ^ 1020" using sx2 a by linarith
    then show ?thesis unfolding s'_def by (rule rounded_small)
  qed
  have e: "\<bar>s' - (s + x)\<bar> \<le> \<bar>s + x\<bar> / 2 ^ 53 + a / 2 ^ 75"
    unfolding s'_def by (rule fl_near [OF a(1)])
  have e2: "\<bar>s + x\<bar> / 2 ^ 53 \<le> (2000 * a) / 2 ^ 53"
    using sx2 by (rule divide_right_mono) simp
  have "\<bar>s' - (real (length xs) * c + c)\<bar>
      \<le> \<bar>s' - (s + x)\<bar> + \<bar>s - real (length xs) * c\<bar> + \<bar>x - c\<bar>"
    by linarith
  also have "\<dots> \<le> (2000 * a) / 2 ^ 53 + a / 2 ^ 75 + (0.00005 + 1 / 2 ^ 41) * na
      + (0.00005 + 1 / 2 ^ 51) * a"
    using e e2 s(2) x by linarith
  also have "\<dots> \<le> (0.00005 + 1 / 2 ^ 41) * (na + a)"
    using a(3) by (simp add: field_simps)
  finally have fin: "\<bar>s' - (real (length xs) * c + c)\<bar> \<le> (0.00005 + 1 / 2 ^ 41) * (na + a)" .
  have "foldl (\<lambda>a b. rounded (jadd a b)) (Fin 0) (map Fin (xs @ [x])) = Fin s'"
    by (simp add: s S)
  moreover have "\<bar>s' - real (length (xs @ [x])) * c\<bar>
      \<le> (0.00005 + 1 / 2 ^ 41) * (real (length (xs @ [x])) * \<bar>c\<bar>)"
    using fin by (simp add: na_def a_def algebra_simps)
  ultimately show ?case by blast
qed

lemma mean_d_bound:
  assumes lo: "1 / 2 ^ 1000 \<le> \<bar>c\<bar>" and hi: "\<bar>c\<bar> \<le> 2 ^ 1000"
    and len: "length xs = 1000"
    and bnd: "\<forall>x\<in>set xs. \<bar>x - c\<bar> \<le> (0.00005 + 1 / 2 ^ 51) * \<bar>c\<bar>"
  shows "\<exists>m. mean_of_d (map Fin xs) = Fin m \<and> \<bar>m - c\<bar> \<le> (0.00005 + 1 / 2 ^ 40) * \<bar>c\<bar>"
proof -
  define a where "a = \<bar>c\<bar>"
  have a: "1 / 2 ^ 1000 \<le> a" "a \<le> 2 ^ 1000" "0 \<le> a" using lo hi by (simp_all add: a_def)
  have "length xs \<le> 1000" using len by simp
  from sum_d_bound [OF lo hi this bnd] len obtain s where
    s: "foldl (\<lambda>a b. rounded (jadd a b)) (Fin 0) (map Fin xs) = Fin s"
       "\<bar>s - 1000 * c\<bar> \<le> (0.00005 + 1 / 2 ^ 41) * (1000 * a)"
    by (auto simp: a_def)
  define y where "y = s / 1000"
  have y1: "\<bar>y - c\<bar> \<le> (0.00005 + 1 / 2 ^ 41) * a"
  proof -
    have "\<bar>y - c\<bar> = \<bar>(s - 1000 * c) / 1000\<bar>" by (simp add: y_def field_simps)
    also have "\<bar>(s - 1000 * c) / 1000\<bar> = \<bar>s - 1000 * c\<bar> / 1000" by simp
    finally have "\<bar>y - c\<bar> = \<bar>s - 1000 * c\<bar> / 1000" .
    also have "\<dots> \<le> ((0.00005 + 1 / 2 ^ 41) * (1000 * a)) / 1000"
      using s(2) by (rule divide_right_mono) simp
    finally show ?thesis by simp
  qed
  have y2: "\<bar>y\<bar> \<le> 2 * a"
  proof -
    have "(0.00005 + 1 / 2 ^ 41) * a \<le> 1 * a" using a(3) by (intro mult_right_mono) simp_all
    with y1 have "\<bar>y - c\<bar> \<le> a" by simp
    then show ?thesis unfolding a_def by linarith
  qed
  define m where "m = fl y"
  have M: "rounded (Fin y) = Fin m"
  proof -
    have "2 * (2::real) ^ 1000 \<le> 2 ^ 1020" by simp
    then have "\<bar>y\<bar> \<le> 2 ^ 1020" using y2 a by linarith
    then show ?thesis unfolding m_def by (rule rounded_small)
  qed
  have "\<bar>m - y\<bar> \<le> \<bar>y\<bar> / 2 ^ 53 + a / 2 ^ 75"
    unfolding m_def by (rule fl_near [OF a(1)])
  moreover have "\<bar>y\<bar> / 2 ^ 53 \<le> (2 * a) / 2 ^ 53"
    using y2 by (rule divide_right_mono) simp
  moreover have "(2 * a) / 2 ^ 53 + a / 2 ^ 75 + (0.00005 + 1 / 2 ^ 41) * a
      \<le> (0.00005 + 1 / 2 ^ 40) * a"
    using a(3) by (simp add: field_simps)
  ultimately have "\<bar>m - c\<bar> \<le> (0.00005 + 1 / 2 ^ 40) * a"
    using y1 by linarith
  moreover have "mean_of_d (map Fin xs) = Fin m"
    by (simp add: mean_of_d_def s measurementCount_c_def y_def [symmetric] M)
  ultimately show ?thesis by (auto simp: a_def)
qed

lemma rounded_zero: "rounded (Fin 0) = Fin 0"
  by (rule rounded_Fin) (simp_all add: fl_zero)

lemma noise_factor_fin:
  assumes u: "0 \<le> u" "u < 1"
  shows "\<exists>t. rounded (jmul (rounded (jsub (Fin u) (Fin 0.5))) (rounded (Fin 0.0001))) = Fin t"
proof -
  define K :: real where "K = 7378697629483821 / 2 ^ 66"
  define t1 where "t1 = fl (u - 1 / 2)"
  have u1: "\<bar>u - 1 / 2\<bar> \<le> 1 / 2" using u by linarith
  have T1: "rounded (jsub (Fin u) (Fin 0.5)) = Fin t1"
  proof -
    have "(1::real) / 2 \<le> 2 ^ 1020" by simp
    with u1 have "\<bar>u - 1 / 2\<bar> \<le> 2 ^ 1020" by linarith
    from rounded_small [OF this] show ?thesis by (simp add: jsub_def t1_def)
  qed
  have "\<bar>t1\<bar> \<le> \<bar>u - 1 / 2\<bar> + \<bar>u - 1 / 2\<bar> / 2 ^ 53 + 1 / 2 ^ 1075"
    unfolding t1_def by (rule fl_abs_le)
  moreover have "\<bar>u - 1 / 2\<bar> / 2 ^ 53 \<le> (1 / 2) / 2 ^ 53"
    using u1 by (rule divide_right_mono) simp
  moreover have "(1 / 2) / 2 ^ 53 + 1 / 2 ^ 1075 \<le> (1::real) / 2" by simp
  ultimately have b1: "\<bar>t1\<bar> \<le> 1" using u1 by linarith
  have "\<bar>t1 * K\<bar> \<le> 1 * \<bar>K\<bar>" using b1 by (rule abs_mult_bound)
  moreover have "1 * \<bar>K\<bar> \<le> 2 ^ 1020" by (simp add: K_def)
  ultimately have "\<bar>t1 * K\<bar> \<le> 2 ^ 1020" by linarith
  then have "rounded (Fin (t1 * K)) = Fin (fl (t1 * K))" by (rule rounded_small)
  then have "rounded (jmul (rounded (jsub (Fin u) (Fin 0.5))) (rounded (Fin 0.0001))) =
      Fin (fl (t1 * K))"
    unfolding T1 rounded_k K_def [symmetric] jmul.simps .
  then show ?thesis by blast
qed

lemma reading_d_zero:
  assumes "0 \<le> u" "u < 1"
  shows "reading_d (Fin 0) u = Fin 0"
proof -
  from noise_factor_fin [OF assms] obtain t where
    t: "rounded (jmul (rounded (jsub (Fin u) (Fin 0.5))) (rounded (Fin 0.0001))) = Fin t" by blast
  have "reading_d (Fin 0) u = rounded (jadd (Fin 0) (rounded (jmul (Fin t) (Fin 0))))"
    unfolding reading_d_def Let_def t ..
  then show ?thesis by (simp add: rounded_zero)
qed

lemma takeReadings_d_zero:
  "\<forall>i<n. 0 \<le> rnd i \<and> rnd i < 1 \<Longrightarrow> takeReadings_d rnd (Fin 0) n = replicate n (Fin 0)"
  by (induction n) (simp_all add: reading_d_zero replicate_append_same)

lemma sum_d_zeros: "foldl (\<lambda>a b. rounded (jadd a b)) (Fin 0) (replicate n (Fin 0)) = Fin 0"
  by (induction n) (simp_all add: rounded_zero)

lemma mean_of_d_zeros: "mean_of_d (replicate n (Fin 0)) = Fin 0"
  by (simp add: mean_of_d_def sum_d_zeros measurementCount_c_def rounded_zero)

lemma sqdev_d_zeros:
  "foldl (\<lambda>a b. rounded (jadd a (rounded (Math_pow2 (rounded (jsub b (Fin 0)))))))
     (Fin 0) (replicate n (Fin 0)) = Fin 0"
  by (induction n) (simp_all add: rounded_zero jsub_def)

lemma variance_of_d_zeros: "variance_of_d (replicate n (Fin 0)) (Fin 0) = Fin 0"
  by (simp add: variance_of_d_def sqdev_d_zeros measurementCount_c_def rounded_zero)

lemma standardDeviation_d_zeros: "standardDeviation_d (replicate n (Fin 0)) = Fin 0"
  by (simp add: standardDeviation_d_def mean_of_d_zeros variance_of_d_zeros rounded_zero)

lemma rounded_sqrt_count:
  "\<exists>q. rounded (Math_sqrt (Fin (real measurementCount_c))) = Fin q \<and> q \<noteq> 0"
proof -
  define x :: real where "x = sqrt 1000"
  have x: "1 \<le> x" "x \<le> 1000"
  proof -
    have "sqrt 1 \<le> sqrt 1000" by (intro real_sqrt_le_mono) simp
    then show "1 \<le> x" by (simp add: x_def)
    have "sqrt 1000 \<le> sqrt (1000 ^ 2)" by (intro real_sqrt_le_mono) simp
    then show "x \<le> 1000" by (simp add: x_def)
  qed
  have "(1000::real) \<le> 2 ^ 1020" by simp
  with x have "\<bar>x\<bar> \<le> 2 ^ 1020" by linarith
  then have r: "rounded (Fin x) = Fin (fl x)" by (rule rounded_small)
  have "\<bar>fl x - x\<bar> \<le> \<bar>x\<bar> / 2 ^ 53 + 1 / 2 ^ 1075" by (rule fl_error)
  moreover have "\<bar>x\<bar> / 2 ^ 53 \<le> \<bar>x\<bar> / 2" by (simp add: field_simps)
  moreover have "(1::real) / 2 ^ 1075 < 1 / 2" by simp
  ultimately have "fl x \<noteq> 0" using x by linarith
  with r show ?thesis by (auto simp: measurementCount_c_def x_def)
qed

lemma standardError_d_zeros: "standardError_d (replicate n (Fin 0)) = Fin 0"
proof -
  from rounded_sqrt_count obtain q where
    q: "rounded (Math_sqrt (Fin (real measurementCount_c))) = Fin q" "q \<noteq> 0" by blast
  show ?thesis
    unfolding standardError_d_def standardDeviation_d_zeros q(1)
    using q(2) by (simp add: rounded_zero)
qed

text \<open>
  C10, as the code has it: for draws in \<open>[0, 1)\<close> and a nominal current that is zero or
  of magnitude between \<open>2 ^ -1000\<close> and \<open>2 ^ 1000\<close>, each of the 1000 readings lies within
  \<open>(0.00005 + 2 ^ -51) * \<bar>current\<bar>\<close> of the nominal current and their mean within
  \<open>(0.00005 + 2 ^ -40) * \<bar>current\<bar>\<close>: the band \<open>0.00005 * \<bar>current\<bar>\<close> holds up to the
  rounding of the operations. When the nominal current is zero, every reading, the mean,
  the standard deviation and the standard error are zero.
\<close>
theorem readings_near_noise_band:
  assumes rnd: "\<forall>i<1000. 0 \<le> rnd i \<and> rnd i < 1"
    and c: "c = 0 \<or> 1 / 2 ^ 1000 \<le> \<bar>c\<bar> \<and> \<bar>c\<bar> \<le> 2 ^ 1000"
  shows "length (takeReadings_d rnd (Fin c) 1000) = 1000 \<and>
         (\<forall>x\<in>set (takeReadings_d rnd (Fin c) 1000).
            \<exists>r. x = Fin r \<and> \<bar>r - c\<bar> \<le> (0.00005 + 1 / 2 ^ 51) * \<bar>c\<bar>) \<and>
         (\<exists>m. mean_of_d (takeReadings_d rnd (Fin c) 1000) = Fin m \<and>
              \<bar>m - c\<bar> \<le> (0.00005 + 1 / 2 ^ 40) * \<bar>c\<bar>) \<and>
         (c = 0 \<longrightarrow>
            (\<forall>x\<in>set (takeReadings_d rnd (Fin c) 1000). x = Fin 0) \<and>
            mean_of_d (takeReadings_d rnd (Fin c) 1000) = Fin 0 \<and>
            standardDeviation_d (takeReadings_d rnd (Fin c) 1000) = Fin 0 \<and>
            standardError_d (takeReadings_d rnd (Fin c) 1000) = Fin 0)"
proof (cases "c = 0")
  case True
  have z: "takeReadings_d rnd (Fin c) 1000 = replicate 1000 (Fin 0)"
    unfolding True using rnd by (rule takeReadings_d_zero)
  show ?thesis
    unfolding z
    by (simp add: True mean_of_d_zeros standardDeviation_d_zeros standardError_d_zeros)
next
  case False
  with c have lo: "1 / 2 ^ 1000 \<le> \<bar>c\<bar>" and hi: "\<bar>c\<bar> \<le> 2 ^ 1000" by simp_all
  from takeReadings_d_fin [OF rnd lo hi] obtain xs where
    xs: "takeReadings_d rnd (Fin c) 1000 = map Fin xs" "length xs = 1000"
        "\<forall>x\<in>set xs. \<bar>x - c\<bar> \<le> (0.00005 + 1 / 2 ^ 51) * \<bar>c\<bar>"
    by blast
  have p1: "length (takeReadings_d rnd (Fin c) 1000) = 1000"
    by (rule length_takeReadings_d)
  have p2: "\<forall>x\<in>set (takeReadings_d rnd (Fin c) 1000).
      \<exists>r. x = Fin r \<and> \<bar>r - c\<bar> \<le> (0.00005 + 1 / 2 ^ 51) * \<bar>c\<bar>"
    using xs(3) by (auto simp: xs(1))
  have p3: "\<exists>m. mean_of_d (takeReadings_d rnd (Fin c) 1000) = Fin m \<and>
      \<bar>m - c\<bar> \<le> (0.00005 + 1 / 2 ^ 40) * \<bar>c\<bar>"
    unfolding xs(1) using lo hi xs(2) xs(3) by (rule mean_d_bound)
  from p1 p2 p3 False show ?thesis by blast
qed

text \<open>
  The nominal current of intensity 1 and area 0.07 with every draw zero, and the nominal
  current zero.
\<close>
theorem readings_near_noise_band_witness:
  "length (takeReadings_d zero_draws (Fin (5165088340638675 / 2 ^ 66)) 1000) = 1000 \<and>
   (\<exists>m. mean_of_d (takeReadings_d zero_draws (Fin (5165088340638675 / 2 ^ 66)) 1000) = Fin m \<and>
        \<bar>m - 5165088340638675 / 2 ^ 66\<bar>
          \<le> (0.00005 + 1 / 2 ^ 40) * \<bar>5165088340638675 / 2 ^ 66\<bar>) \<and>
   mean_of_d (takeReadings_d zero_draws (Fin 0) 1000) = Fin 0 \<and>
   standardDeviation_d (takeReadings_d zero_draws (Fin 0) 1000) = Fin 0 \<and>
   standardError_d (takeReadings_d zero_draws (Fin 0) 1000) = Fin 0"
proof -
  have h1: "\<forall>i<1000. 0 \<le> zero_draws i \<and> zero_draws i < 1" by (simp add: zero_draws_def)
  have h2: "(5165088340638675 / 2 ^ 66 :: real) = 0 \<or>
      1 / 2 ^ 1000 \<le> \<bar>5165088340638675 / 2 ^ 66 :: real\<bar> \<and>
      \<bar>5165088340638675 / 2 ^ 66 :: real\<bar> \<le> 2 ^ 1000"
    by simp
  have h3: "(0::real) = 0 \<or> 1 / 2 ^ 1000 \<le> \<bar>0::real\<bar> \<and> \<bar>0::real\<bar> \<le> 2 ^ 1000" by simp
  from readings_near_noise_band [OF h1 h2] readings_near_noise_band [OF h1 h3]
  show ?thesis by blast
qed

end
